theory Spec2Isabelle
  imports Main
begin

section \<open>The seat table\<close>

text \<open>
  A row of table \<open>t_seat\<close>, with the four columns the queries of \<open>tools.py\<close> name:
  \<open>id\<close>, \<open>start_station\<close>, \<open>end_station\<close> and \<open>seat_status\<close>. The status is the
  integer the SQL compares and stores: \<open>0\<close> is an available seat, \<open>1\<close> a booked one.
  The table is the list of its rows in the order in which the engine scans them.
\<close>

record seat =
  seat_id :: int
  start_station :: string
  end_station :: string
  seat_status :: int

type_synonym table = "seat list"

text \<open>
  Modelled from the spec: the declaration of \<open>t_seat\<close> (its key and the collation of its
  station columns) is not part of the repository. The spec's data model says that \<open>id\<close>
  is a unique identifier and that a route is matched exactly, case-sensitively; so
  a well-formed table has pairwise different ids, and the SQL comparison
  \<open>start_station=%s\<close> is equality of strings.
\<close>

definition wf_table :: "table \<Rightarrow> bool" where
  "wf_table tbl = distinct (map seat_id tbl)"

definition station_eq :: "string \<Rightarrow> string \<Rightarrow> bool" where
  "station_eq col arg = (col = arg)"

text \<open>
  The \<open>WHERE\<close> clause shared by both queries of \<open>tools.py\<close>:
  \<open>seat_status=0 AND start_station=%s AND end_station=%s\<close>.
\<close>

definition available_on :: "string \<Rightarrow> string \<Rightarrow> seat \<Rightarrow> bool" where
  "available_on s e r =
     (seat_status r = 0 \<and> station_eq (start_station r) s \<and> station_eq (end_station r) e)"

text \<open>The number of available seats of a route: the rows that clause keeps.\<close>

definition available_count :: "table \<Rightarrow> string \<Rightarrow> string \<Rightarrow> int" where
  "available_count tbl s e = int (length (filter (available_on s e) tbl))"

section \<open>The database layer\<close>

text \<open>
  Every call into the database driver can raise. An exception is kept as the text
  \<open>str(e)\<close> that the handlers of the program print; a fault plan says, for each driver
  call a function makes, whether that call raises (\<open>Some\<close> the text) or goes through
  (\<open>None\<close>). A call that raises has no effect on the data.
\<close>

type_synonym exn = string

record check_faults =
  cf_connect :: "exn option"
  cf_execute :: "exn option"
  cf_close :: "exn option"

record book_faults =
  bf_connect :: "exn option"
  bf_select :: "exn option"
  bf_update :: "exn option"
  bf_commit :: "exn option"
  bf_rollback :: "exn option"
  bf_close :: "exn option"

definition no_check_faults :: check_faults where
  "no_check_faults = \<lparr>cf_connect = None, cf_execute = None, cf_close = None\<rparr>"

definition no_book_faults :: book_faults where
  "no_book_faults =
     \<lparr>bf_connect = None, bf_select = None, bf_update = None,
      bf_commit = None, bf_rollback = None, bf_close = None\<rparr>"

text \<open>
  A connection opened with \<open>autocommit=False\<close> (\<open>db.py\<close>): the transaction works on its
  own copy of the table, which replaces the stored table at \<open>commit\<close>, is reset by
  \<open>rollback\<close>, and is dropped when the connection is closed.
\<close>

record conn =
  committed :: table
  working :: table

definition get_db_connection :: "exn option \<Rightarrow> table \<Rightarrow> exn + conn" where
  "get_db_connection fault db =
     (case fault of
        Some m \<Rightarrow> Inl m
      | None \<Rightarrow> Inr \<lparr>committed = db, working = db\<rparr>)"

definition conn_commit :: "exn option \<Rightarrow> conn \<Rightarrow> exn + conn" where
  "conn_commit fault c =
     (case fault of
        Some m \<Rightarrow> Inl m
      | None \<Rightarrow> Inr (c\<lparr>committed := working c\<rparr>))"

definition conn_rollback :: "exn option \<Rightarrow> conn \<Rightarrow> exn + conn" where
  "conn_rollback fault c =
     (case fault of
        Some m \<Rightarrow> Inl m
      | None \<Rightarrow> Inr (c\<lparr>working := committed c\<rparr>))"

definition conn_close :: "conn \<Rightarrow> table" where
  "conn_close c = committed c"

text \<open>The error text of the server for a statement it cannot parse (error 1064).\<close>

definition sql_syntax_error :: exn where
  "sql_syntax_error = ''(1064, You have an error in your SQL syntax)''"

text \<open>
  \<open>SELECT COUNT(*) AS available_seats FROM t_seat WHERE ...\<close> followed by
  \<open>fetchone()\<close>: an aggregate without grouping always yields one row.
\<close>

definition execute_count :: "exn option \<Rightarrow> table \<Rightarrow> string \<Rightarrow> string \<Rightarrow> exn + int option" where
  "execute_count fault tbl s e =
     (case fault of
        Some m \<Rightarrow> Inl m
      | None \<Rightarrow> Inr (Some (available_count tbl s e)))"

text \<open>
  \<open>SELECT id FROM t_seat WHERE ... LIMIT %s FOR UPDATE\<close> followed by \<open>fetchall()\<close>: the ids
  of the first \<open>num_seats\<close> matching rows. The server accepts only a non-negative
  \<open>LIMIT\<close>; the driver writes a negative argument into the statement as it is, and
  the server answers with a syntax error.
\<close>

definition selected :: "table \<Rightarrow> string \<Rightarrow> string \<Rightarrow> int \<Rightarrow> seat list" where
  "selected tbl s e num_seats = take (nat num_seats) (filter (available_on s e) tbl)"

definition execute_select_for_update ::
  "exn option \<Rightarrow> table \<Rightarrow> string \<Rightarrow> string \<Rightarrow> int \<Rightarrow> exn + int list" where
  "execute_select_for_update fault tbl s e num_seats =
     (case fault of
        Some m \<Rightarrow> Inl m
      | None \<Rightarrow>
          if num_seats < 0 then Inl sql_syntax_error
          else Inr (map seat_id (selected tbl s e num_seats)))"

text \<open>
  \<open>UPDATE t_seat SET seat_status=1 WHERE id IN (...)\<close>, the list being the selected ids
  joined with commas. With no id the statement reads \<open>WHERE id IN ()\<close>, which the
  server rejects. The update is made in the transaction's working copy.
\<close>

definition mark_booked :: "int list \<Rightarrow> table \<Rightarrow> table" where
  "mark_booked seat_ids tbl =
     map (\<lambda>r. if seat_id r \<in> set seat_ids then r\<lparr>seat_status := 1\<rparr> else r) tbl"

definition execute_update :: "exn option \<Rightarrow> conn \<Rightarrow> int list \<Rightarrow> exn + conn" where
  "execute_update fault c seat_ids =
     (case fault of
        Some m \<Rightarrow> Inl m
      | None \<Rightarrow>
          if seat_ids = [] then Inl sql_syntax_error
          else Inr (c\<lparr>working := mark_booked seat_ids (working c)\<rparr>))"

section \<open>tools.py\<close>

text \<open>
  \<open>check_ticket\<close>: the connection is opened before the \<open>try\<close>, so a failure to connect
  is raised as it is; an exception of \<open>close\<close> in the \<open>finally\<close> block replaces the
  value being returned. The result is paired with the stored table after the call.
\<close>

definition check_ticket ::
  "check_faults \<Rightarrow> table \<Rightarrow> string \<Rightarrow> string \<Rightarrow> (exn + int) \<times> table" where
  "check_ticket f db start_st end_st =
     (case get_db_connection (cf_connect f) db of
        Inl m \<Rightarrow> (Inl m, db)
      | Inr c \<Rightarrow>
          let r = (case execute_count (cf_execute f) (working c) start_st end_st of
                     Inl m \<Rightarrow> Inl m
                   | Inr result \<Rightarrow>
                       (case result of Some available_seats \<Rightarrow> Inr available_seats
                                     | None \<Rightarrow> Inr 0))
          in ((case cf_close f of Some m \<Rightarrow> Inl m | None \<Rightarrow> r), conn_close c))"

text \<open>
  The three strings \<open>book_ticket\<close> returns: not enough seats (with \<open>len(seats)\<close>),
  booked (with \<open>num_seats\<close>), and booking failed (with the text of the exception).
\<close>

datatype book_msg =
    NotEnough int
  | Booked int
  | BookFailed exn

text \<open>
  The body of the \<open>with conn.cursor()\<close> block of \<open>book_ticket\<close>: it either returns a
  string or raises.
\<close>

definition book_txn ::
  "book_faults \<Rightarrow> conn \<Rightarrow> string \<Rightarrow> string \<Rightarrow> int \<Rightarrow> (exn + book_msg) \<times> conn" where
  "book_txn f c start_st end_st num_seats =
     (case execute_select_for_update (bf_select f) (working c) start_st end_st num_seats of
        Inl m \<Rightarrow> (Inl m, c)
      | Inr seats \<Rightarrow>
          if int (length seats) < num_seats then (Inr (NotEnough (int (length seats))), c)
          else
            (case execute_update (bf_update f) c seats of
               Inl m \<Rightarrow> (Inl m, c)
             | Inr c1 \<Rightarrow>
                 (case conn_commit (bf_commit f) c1 of
                    Inl m \<Rightarrow> (Inl m, c1)
                  | Inr c2 \<Rightarrow> (Inr (Booked num_seats), c2))))"

text \<open>
  \<open>book_ticket\<close>: \<open>except Exception\<close> rolls back and returns the failure string (an
  exception of \<open>rollback\<close> itself leaves the function); \<open>finally\<close> closes the
  connection, and an exception of \<open>close\<close> replaces whatever was on its way out.
\<close>

definition book_ticket ::
  "book_faults \<Rightarrow> table \<Rightarrow> string \<Rightarrow> string \<Rightarrow> int \<Rightarrow> (exn + book_msg) \<times> table" where
  "book_ticket f db start_st end_st num_seats =
     (case get_db_connection (bf_connect f) db of
        Inl m \<Rightarrow> (Inl m, db)
      | Inr c \<Rightarrow>
          let (r, c1) =
                (case book_txn f c start_st end_st num_seats of
                   (Inr msg, c') \<Rightarrow> (Inr msg, c')
                 | (Inl m, c') \<Rightarrow>
                     (case conn_rollback (bf_rollback f) c' of
                        Inl m' \<Rightarrow> (Inl m', c')
                      | Inr c'' \<Rightarrow> (Inr (BookFailed m), c'')))
          in ((case bf_close f of Some m \<Rightarrow> Inl m | None \<Rightarrow> r), conn_close c1))"

section \<open>server.py\<close>

datatype status = Success | Fail

text \<open>
  The messages of the two tools: query succeeded; only \<open>remaining\<close> seats left;
  booked \<open>num_seats\<close> seats; the text \<open>str(e)\<close> of an exception.
\<close>

datatype message =
    QueryOk
  | OnlyLeft int
  | BookedSeats int
  | ExnText exn

record outcome =
  status :: status
  message :: message

record check_outcome = outcome +
  remaining :: "int option"

record book_outcome = outcome +
  booked :: int

definition check_ticket_tool ::
  "check_faults \<Rightarrow> table \<Rightarrow> string \<Rightarrow> string \<Rightarrow> check_outcome \<times> table" where
  "check_ticket_tool f db start_st end_st =
     (case check_ticket f db start_st end_st of
        (Inr n, db') \<Rightarrow> (\<lparr>status = Success, message = QueryOk, remaining = Some n\<rparr>, db')
      | (Inl m, db') \<Rightarrow> (\<lparr>status = Fail, message = ExnText m, remaining = None\<rparr>, db'))"

text \<open>
  \<open>book_ticket_tool\<close>: \<open>check_ticket\<close> returns an integer, so the test
  \<open>remaining is None\<close> never holds. The string \<open>book_ticket\<close> returns is not used.
\<close>

definition book_ticket_tool ::
  "check_faults \<Rightarrow> book_faults \<Rightarrow> table \<Rightarrow> string \<Rightarrow> string \<Rightarrow> int \<Rightarrow> book_outcome \<times> table" where
  "book_ticket_tool fc fb db start_st end_st num_seats =
     (case check_ticket fc db start_st end_st of
        (Inl m, db1) \<Rightarrow> (\<lparr>status = Fail, message = ExnText m, booked = 0\<rparr>, db1)
      | (Inr n, db1) \<Rightarrow>
          if num_seats > n
          then (\<lparr>status = Fail, message = OnlyLeft n, booked = 0\<rparr>, db1)
          else
            (case book_ticket fb db1 start_st end_st num_seats of
               (Inl m, db2) \<Rightarrow> (\<lparr>status = Fail, message = ExnText m, booked = 0\<rparr>, db2)
             | (Inr _, db2) \<Rightarrow>
                 (\<lparr>status = Success, message = BookedSeats num_seats, booked = num_seats\<rparr>, db2)))"

section \<open>Sequences of calls\<close>

text \<open>
  The four entry points of the store, each with its arguments and the fault plan of
  the call, and the stored table after a call and after a list of calls made one
  after the other.
\<close>

datatype call =
    Check_ticket check_faults string string
  | Book_ticket book_faults string string int
  | Check_ticket_tool check_faults string string
  | Book_ticket_tool check_faults book_faults string string int

fun exec :: "table \<Rightarrow> call \<Rightarrow> table" where
  "exec db (Check_ticket f s e) = snd (check_ticket f db s e)"
| "exec db (Book_ticket f s e n) = snd (book_ticket f db s e n)"
| "exec db (Check_ticket_tool f s e) = snd (check_ticket_tool f db s e)"
| "exec db (Book_ticket_tool fc fb s e n) = snd (book_ticket_tool fc fb db s e n)"

definition run :: "table \<Rightarrow> call list \<Rightarrow> table" where
  "run db calls = foldl exec db calls"

section \<open>Comparing the table before and after\<close>

text \<open>
  \<open>framed s e r r'\<close>: row \<open>r'\<close> is row \<open>r\<close> itself, or \<open>r\<close> was an available seat of the
  route and \<open>r'\<close> is \<open>r\<close> booked. \<open>seat_moves r r'\<close>: \<open>r'\<close> is the same seat as \<open>r\<close>, with
  the same status or gone from \<open>0\<close> to \<open>1\<close>. \<open>changed_rows\<close>: the positions at which two
  tables differ.
\<close>

definition framed :: "string \<Rightarrow> string \<Rightarrow> seat \<Rightarrow> seat \<Rightarrow> bool" where
  "framed s e r r' = (r' = r \<or> (available_on s e r \<and> r' = r\<lparr>seat_status := 1\<rparr>))"

definition seat_moves :: "seat \<Rightarrow> seat \<Rightarrow> bool" where
  "seat_moves r r' =
     (seat_id r' = seat_id r \<and> start_station r' = start_station r \<and>
      end_station r' = end_station r \<and>
      (seat_status r' = seat_status r \<or> (seat_status r = 0 \<and> seat_status r' = 1)))"

definition changed_rows :: "table \<Rightarrow> table \<Rightarrow> nat list" where
  "changed_rows db db' = filter (\<lambda>i. db' ! i \<noteq> db ! i) [0..<length db]"

section \<open>An example table\<close>

text \<open>
  Four seats: two available and one booked on the route from \<open>A\<close> to \<open>B\<close>, and one
  available on the route from \<open>A\<close> to \<open>C\<close>.
\<close>

definition example_table :: table where
  "example_table =
     [\<lparr>seat_id = 1, start_station = ''A'', end_station = ''B'', seat_status = 0\<rparr>,
      \<lparr>seat_id = 2, start_station = ''A'', end_station = ''B'', seat_status = 1\<rparr>,
      \<lparr>seat_id = 3, start_station = ''A'', end_station = ''C'', seat_status = 0\<rparr>,
      \<lparr>seat_id = 4, start_station = ''A'', end_station = ''B'', seat_status = 0\<rparr>]"

text \<open>
  Four calls: a booking through the tool, a query, a booking whose commit raises, and
  a booking on the other route.
\<close>

definition example_calls :: "call list" where
  "example_calls =
     [Book_ticket_tool no_check_faults no_book_faults ''A'' ''B'' 1,
      Check_ticket_tool no_check_faults ''A'' ''B'',
      Book_ticket (no_book_faults\<lparr>bf_commit := Some ''Deadlock found''\<rparr>) ''A'' ''B'' 1,
      Book_ticket no_book_faults ''A'' ''C'' 1]"

section \<open>Lemmas about the calls\<close>

lemma check_ticket_snd: "snd (check_ticket f db s e) = db"
  by (simp add: check_ticket_def get_db_connection_def conn_close_def Let_def split: option.splits)

lemma check_ticket_fst:
  "fst (check_ticket f db s e) = Inr c \<Longrightarrow> c = available_count db s e"
  by (auto simp: check_ticket_def get_db_connection_def execute_count_def Let_def split: option.splits)

lemma check_ticket_no_faults:
  "check_ticket no_check_faults db s e = (Inr (available_count db s e), db)"
  by (simp add: check_ticket_def get_db_connection_def execute_count_def conn_close_def no_check_faults_def)

lemma book_ticket_table:
  "snd (book_ticket f db s e n) = db \<or>
   (0 < n \<and> n \<le> available_count db s e \<and>
    snd (book_ticket f db s e n) = mark_booked (map seat_id (selected db s e n)) db)"
  by (auto simp: book_ticket_def book_txn_def get_db_connection_def conn_close_def conn_commit_def
      conn_rollback_def execute_update_def execute_select_for_update_def Let_def selected_def
      available_count_def
      split: option.splits sum.splits if_splits prod.splits)

lemma book_ticket_no_faults:
  "0 < n \<Longrightarrow> n \<le> available_count db s e \<Longrightarrow>
   book_ticket no_book_faults db s e n =
     (Inr (Booked n), mark_booked (map seat_id (selected db s e n)) db)"
  by (auto simp: book_ticket_def book_txn_def get_db_connection_def conn_close_def conn_commit_def
      conn_rollback_def execute_update_def execute_select_for_update_def Let_def no_book_faults_def
      selected_def available_count_def
      split: option.splits sum.splits if_splits prod.splits)

lemma book_ticket_nonpos:
  "n \<le> 0 \<Longrightarrow> book_ticket no_book_faults db s e n = (Inr (BookFailed sql_syntax_error), db)"
  by (auto simp: book_ticket_def book_txn_def get_db_connection_def conn_close_def conn_commit_def
      conn_rollback_def execute_update_def execute_select_for_update_def Let_def no_book_faults_def selected_def
      split: option.splits sum.splits if_splits prod.splits)

lemma tool_table:
  "snd (book_ticket_tool fc fb db s e n) = db \<or>
   snd (book_ticket_tool fc fb db s e n) = snd (book_ticket fb db s e n)"
  using check_ticket_snd[of fc db s e]
  by (auto simp: book_ticket_tool_def split: prod.splits sum.splits)

lemma filter_notin_take:
  assumes d: "distinct xs"
  shows "filter (\<lambda>x. x \<notin> set (take k xs)) xs = drop k xs"
proof -
  let ?Q = "\<lambda>x. x \<notin> set (take k xs)"
  have a: "filter ?Q (take k xs) = []" by simp
  have b: "filter ?Q (drop k xs) = drop k xs"
    using set_take_disj_set_drop_if_distinct[OF d, of k k] by (auto simp: filter_id_conv)
  have "filter ?Q xs = filter ?Q (take k xs @ drop k xs)" by simp
  also have "\<dots> = filter ?Q (take k xs) @ filter ?Q (drop k xs)" by (rule filter_append)
  also have "\<dots> = drop k xs" by (simp only: a b append_Nil)
  finally show ?thesis .
qed

lemma id_in_selected:
  assumes "wf_table db" "r \<in> set db"
  shows "seat_id r \<in> set (map seat_id (selected db s e n)) \<longleftrightarrow> r \<in> set (selected db s e n)"
proof -
  have inj: "inj_on seat_id (set db)" using assms(1) by (simp add: wf_table_def distinct_map)
  have sub: "set (selected db s e n) \<subseteq> set db"
    unfolding selected_def by (meson filter_is_subset set_take_subset subset_trans)
  show ?thesis using inj_on_image_mem_iff[OF inj assms(2) sub] by simp
qed

lemma selected_available: "r \<in> set (selected db s e n) \<Longrightarrow> available_on s e r"
  unfolding selected_def by (auto dest: in_set_takeD)

lemma available_after:
  assumes "wf_table db"
  shows "filter (available_on s e) (mark_booked (map seat_id (selected db s e n)) db)
         = drop (nat n) (filter (available_on s e) db)"
proof -
  let ?P = "available_on s e"
  let ?ids = "map seat_id (selected db s e n)"
  let ?upd = "\<lambda>r. if seat_id r \<in> set ?ids then r\<lparr>seat_status := 1\<rparr> else r"
  have dr: "distinct db" using assms by (simp add: wf_table_def distinct_map)
  have keep: "\<forall>r\<in>set db. (?P \<circ> ?upd) r = (?P r \<and> r \<notin> set (selected db s e n))"
    using id_in_selected[OF assms] selected_available by (auto simp: available_on_def)
  have same: "\<forall>r\<in>set (filter (?P \<circ> ?upd) db). ?upd r = r"
    using id_in_selected[OF assms] keep by auto
  have "filter ?P (mark_booked ?ids db) = map ?upd (filter (?P \<circ> ?upd) db)"
    by (simp add: mark_booked_def filter_map)
  also have "\<dots> = filter (?P \<circ> ?upd) db" by (rule map_idI) (use same in blast)
  also have "\<dots> = filter (\<lambda>r. ?P r \<and> r \<notin> set (selected db s e n)) db"
    by (rule filter_cong[OF refl]) (use keep in blast)
  also have "\<dots> = filter (\<lambda>r. r \<notin> set (take (nat n) (filter ?P db))) (filter ?P db)"
    by (simp add: selected_def conj_commute)
  also have "\<dots> = drop (nat n) (filter ?P db)"
    using dr by (intro filter_notin_take) simp
  finally show ?thesis .
qed

lemma available_count_after:
  assumes "wf_table db" "0 \<le> n" "n \<le> available_count db s e"
  shows "available_count (mark_booked (map seat_id (selected db s e n)) db) s e
         = available_count db s e - n"
  using assms(2,3) by (simp add: available_count_def available_after[OF assms(1)])

lemma length_mark_booked: "length (mark_booked ids db) = length db"
  by (simp add: mark_booked_def)

lemma ids_mark_booked: "map seat_id (mark_booked ids db) = map seat_id db"
  by (simp add: mark_booked_def)

lemma wf_mark_booked: "wf_table db \<Longrightarrow> wf_table (mark_booked ids db)"
  by (simp add: wf_table_def ids_mark_booked)

lemma mark_booked_nth:
  assumes "wf_table db" "i < length db"
  shows "mark_booked (map seat_id (selected db s e n)) db ! i =
           (if db ! i \<in> set (selected db s e n) then (db ! i)\<lparr>seat_status := 1\<rparr> else db ! i)"
  using id_in_selected[OF assms(1), of "db ! i" s e n] assms(2)
  by (simp add: mark_booked_def)

lemma mark_booked_framed:
  assumes "wf_table db"
  shows "list_all2 (framed s e) db (mark_booked (map seat_id (selected db s e n)) db)"
  unfolding list_all2_conv_all_nth
  using mark_booked_nth[OF assms] selected_available
  by (auto simp: length_mark_booked framed_def)

lemma framed_refl: "list_all2 (framed s e) db db"
  by (simp add: list_all2_conv_all_nth framed_def)

lemma length_selected: "length (selected db s e n) \<le> nat n"
  by (simp add: selected_def)

lemma changed_rows_mark_booked:
  assumes "wf_table db"
  shows "length (changed_rows db (mark_booked (map seat_id (selected db s e n)) db)) \<le> nat n"
proof -
  let ?sel = "selected db s e n"
  let ?db' = "mark_booked (map seat_id ?sel) db"
  have dr: "distinct db" using assms by (simp add: wf_table_def distinct_map)
  have "length (changed_rows db ?db') = card ({i. ?db' ! i \<noteq> db ! i} \<inter> set [0..<length db])"
    unfolding changed_rows_def by (rule distinct_length_filter) simp
  also have "\<dots> \<le> card {i. i < length db \<and> db ! i \<in> set ?sel}"
    using mark_booked_nth[OF assms] by (intro card_mono) (auto split: if_splits)
  also have "\<dots> = length (filter (\<lambda>r. r \<in> set ?sel) db)"
    by (simp add: length_filter_conv_card)
  also have "\<dots> = card ({r. r \<in> set ?sel} \<inter> set db)"
    using dr by (rule distinct_length_filter)
  also have "\<dots> \<le> card (set ?sel)"
    by (intro card_mono) auto
  also have "\<dots> \<le> length ?sel" by (rule card_length)
  also have "\<dots> \<le> nat n" by (rule length_selected)
  finally show ?thesis .
qed

lemma changed_rows_same: "changed_rows db db = []"
  by (simp add: changed_rows_def)

lemma book_ticket_framed:
  assumes "wf_table db"
  shows "list_all2 (framed s e) db (snd (book_ticket fb db s e n)) \<and>
         length (changed_rows db (snd (book_ticket fb db s e n))) \<le> nat n"
  using book_ticket_table[of fb db s e n] mark_booked_framed[OF assms, of s e n]
    changed_rows_mark_booked[OF assms, of s e n] framed_refl[of s e db]
  by (auto simp: changed_rows_same)

lemma tool_framed:
  assumes "wf_table db"
  shows "list_all2 (framed s e) db (snd (book_ticket_tool fc fb db s e n)) \<and>
         length (changed_rows db (snd (book_ticket_tool fc fb db s e n))) \<le> nat n"
  using tool_table[of fc fb db s e n] book_ticket_framed[OF assms, of s e fb n] framed_refl[of s e db]
  by (auto simp: changed_rows_same)

lemma framed_moves: "framed s e r r' \<Longrightarrow> seat_moves r r'"
  by (auto simp: framed_def seat_moves_def available_on_def)

lemma seat_moves_trans: "seat_moves a b \<Longrightarrow> seat_moves b c \<Longrightarrow> seat_moves a c"
  by (auto simp: seat_moves_def)

lemma moves_wf:
  assumes "list_all2 seat_moves db db'" "wf_table db"
  shows "wf_table db'"
proof -
  have "map seat_id db' = map seat_id db"
    using assms(1) by (induction rule: list_all2_induct) (auto simp: seat_moves_def)
  then show ?thesis using assms(2) by (simp add: wf_table_def)
qed

lemma check_ticket_tool_snd: "snd (check_ticket_tool f db s e) = db"
  using check_ticket_snd[of f db s e]
  by (auto simp: check_ticket_tool_def split: prod.splits sum.splits)

lemma exec_moves:
  assumes "wf_table db"
  shows "list_all2 seat_moves db (exec db c)"
proof (cases c)
  case (Check_ticket f s e)
  then show ?thesis by (simp add: check_ticket_snd list_all2_conv_all_nth seat_moves_def)
next
  case (Book_ticket f s e n)
  then show ?thesis
    using book_ticket_framed[OF assms, of s e f n] framed_moves
    by (auto intro: list_all2_mono)
next
  case (Check_ticket_tool f s e)
  then show ?thesis by (simp add: check_ticket_tool_snd list_all2_conv_all_nth seat_moves_def)
next
  case (Book_ticket_tool fc fb s e n)
  then show ?thesis
    using tool_framed[OF assms, of s e fc fb n] framed_moves
    by (auto intro: list_all2_mono)
qed

lemma run_moves:
  "wf_table db \<Longrightarrow> list_all2 seat_moves db (run db calls)"
unfolding run_def
proof (induction calls arbitrary: db)
  case Nil
  then show ?case by (simp add: list_all2_conv_all_nth seat_moves_def)
next
  case (Cons c cs)
  have s1: "list_all2 seat_moves db (exec db c)" by (rule exec_moves[OF Cons.prems])
  have "wf_table (exec db c)" by (rule moves_wf[OF s1 Cons.prems])
  then have s2: "list_all2 seat_moves (exec db c) (foldl exec (exec db c) cs)" by (rule Cons.IH)
  show ?case using list_all2_trans[of seat_moves seat_moves seat_moves, OF _ s1 s2] seat_moves_trans
    by auto
qed

lemma tool_no_faults:
  assumes "1 \<le> n" and "n \<le> available_count db s e"
  shows "book_ticket_tool no_check_faults no_book_faults db s e n =
          (\<lparr>status = Success, message = BookedSeats n, booked = n\<rparr>,
           mark_booked (map seat_id (selected db s e n)) db)"
proof -
  have b: "book_ticket no_book_faults db s e n =
             (Inr (Booked n), mark_booked (map seat_id (selected db s e n)) db)"
    using assms by (intro book_ticket_no_faults) simp_all
  show ?thesis using assms(2) by (simp add: book_ticket_tool_def check_ticket_no_faults b)
qed

section \<open>Booking within and beyond the available seats\<close>

text \<open>
  C1. On a table with unique ids and a store that raises nothing, a call of
  \<open>book_ticket_tool\<close> for a route with \<open>A\<close> available seats and a count \<open>n\<close> with
  \<open>1 \<le> n \<le> A\<close> returns status success with \<open>booked = n\<close>, and afterwards the route
  has exactly \<open>A - n\<close> available seats.
\<close>

theorem book_within_availability:
  assumes "wf_table db" and "1 \<le> n" and "n \<le> available_count db s e"
    and "book_ticket_tool no_check_faults no_book_faults db s e n = (res, db')"
  shows "status res = Success \<and> booked res = n \<and> message res = BookedSeats n \<and>
         available_count db' s e = available_count db s e - n"
proof -
  have n: "n \<le> available_count db s e" and p: "0 \<le> n" using assms(2,3) by simp_all
  have r: "res = \<lparr>status = Success, message = BookedSeats n, booked = n\<rparr>"
    and d: "db' = mark_booked (map seat_id (selected db s e n)) db"
    using tool_no_faults[OF assms(2) n] assms(4) by simp_all
  show ?thesis
    unfolding d using r available_count_after[OF assms(1) p n] by simp
qed

theorem book_within_availability_witness:
  "wf_table example_table \<and> (1::int) \<le> 2 \<and> 2 \<le> available_count example_table ''A'' ''B'' \<and>
   status (fst (book_ticket_tool no_check_faults no_book_faults example_table ''A'' ''B'' 2)) = Success \<and>
   booked (fst (book_ticket_tool no_check_faults no_book_faults example_table ''A'' ''B'' 2)) = 2 \<and>
   available_count (snd (book_ticket_tool no_check_faults no_book_faults example_table ''A'' ''B'' 2)) ''A'' ''B'' = 0"
proof -
  have h1: "wf_table example_table" by code_simp
  have h2: "(1::int) \<le> 2" by simp
  have h3: "2 \<le> available_count example_table ''A'' ''B''" by code_simp
  have h4: "available_count example_table ''A'' ''B'' - 2 = 0" by code_simp
  from book_within_availability[OF h1 h2 h3 prod.collapse[symmetric]] h1 h2 h3 h4
  show ?thesis by simp
qed

text \<open>
  C2. A call of \<open>book_ticket_tool\<close> with a count \<open>n\<close> above the number \<open>A\<close> of available
  seats of the route returns status fail with \<open>booked = 0\<close> and leaves the table as it
  was, whatever the store raises; when the availability query goes through, the
  message is the one that states \<open>A\<close>.
\<close>

theorem book_beyond_availability:
  assumes "available_count db s e < n"
  shows "status (fst (book_ticket_tool fc fb db s e n)) = Fail \<and>
         booked (fst (book_ticket_tool fc fb db s e n)) = 0 \<and>
         snd (book_ticket_tool fc fb db s e n) = db \<and>
         (fc = no_check_faults \<longrightarrow>
            message (fst (book_ticket_tool fc fb db s e n)) = OnlyLeft (available_count db s e))"
proof (cases "fst (check_ticket fc db s e)")
  case (Inl m)
  then have c: "check_ticket fc db s e = (Inl m, db)"
    using check_ticket_snd[of fc db s e] by (simp add: prod_eq_iff)
  have "fc \<noteq> no_check_faults" using Inl by (auto simp: check_ticket_no_faults)
  then show ?thesis by (simp add: book_ticket_tool_def c)
next
  case (Inr c)
  then have c: "check_ticket fc db s e = (Inr (available_count db s e), db)"
    using check_ticket_snd[of fc db s e] check_ticket_fst[of fc db s e c] by (simp add: prod_eq_iff)
  show ?thesis using assms by (simp add: book_ticket_tool_def c check_ticket_no_faults)
qed

theorem book_beyond_availability_witness:
  "available_count example_table ''A'' ''B'' < 3 \<and>
   no_check_faults = no_check_faults \<and>
   status (fst (book_ticket_tool no_check_faults no_book_faults example_table ''A'' ''B'' 3)) = Fail \<and>
   booked (fst (book_ticket_tool no_check_faults no_book_faults example_table ''A'' ''B'' 3)) = 0 \<and>
   snd (book_ticket_tool no_check_faults no_book_faults example_table ''A'' ''B'' 3) = example_table \<and>
   message (fst (book_ticket_tool no_check_faults no_book_faults example_table ''A'' ''B'' 3)) = OnlyLeft 2"
proof -
  have h: "available_count example_table ''A'' ''B'' < 3" by code_simp
  have a: "available_count example_table ''A'' ''B'' = 2" by code_simp
  from book_beyond_availability[OF h, of no_check_faults no_book_faults] h a
  show ?thesis by simp
qed

section \<open>Failures of the store during a booking\<close>

text \<open>
  C4. A booking whose transaction raises is to be rolled back and reported with
  status fail. The program does the first and not the second: on the example table,
  with a \<open>commit\<close> that raises, \<open>book_ticket\<close> rolls back and returns its failure
  string, and the table keeps its available seats; \<open>book_ticket_tool\<close>, which does
  not look at that string, reports status success with \<open>booked = 1\<close>.
\<close>

theorem failed_commit_reported_as_success:
  "book_ticket (no_book_faults\<lparr>bf_commit := Some ''Deadlock found''\<rparr>) example_table ''A'' ''B'' 1
     = (Inr (BookFailed ''Deadlock found''), example_table) \<and>
   book_ticket_tool no_check_faults (no_book_faults\<lparr>bf_commit := Some ''Deadlock found''\<rparr>)
       example_table ''A'' ''B'' 1
     = (\<lparr>status = Success, message = BookedSeats 1, booked = 1\<rparr>, example_table)"
  by code_simp

section \<open>Counts that are not positive\<close>

text \<open>
  C5 as first stated (a count that is not positive is refused with status fail) does
  not hold. The count is not checked before the store is used: with the count \<open>0\<close>
  or \<open>- 1\<close> and a store that raises nothing, \<open>book_ticket_tool\<close> reports status
  success, with \<open>booked\<close> the count it was given.
\<close>

theorem nonpositive_count_not_rejected:
  "status (fst (book_ticket_tool no_check_faults no_book_faults example_table ''A'' ''B'' 0)) = Success \<and>
   fst (book_ticket_tool no_check_faults no_book_faults example_table ''A'' ''B'' (- 1))
     = \<lparr>status = Success, message = BookedSeats (- 1), booked = - 1\<rparr>"
  by code_simp

text \<open>
  C5, as amended. A call of \<open>book_ticket\<close> or of \<open>book_ticket_tool\<close> with a count that
  is zero or negative changes no seat, whatever the store raises. The count reaches
  the server: the statement with a negative \<open>LIMIT\<close>, or with an empty list of ids, is
  refused there, and \<open>book_ticket\<close> rolls back and returns its failure string.
\<close>

theorem nonpositive_count_changes_nothing:
  assumes "n \<le> 0"
  shows "snd (book_ticket_tool fc fb db s e n) = db \<and>
         snd (book_ticket fb db s e n) = db \<and>
         book_ticket no_book_faults db s e n = (Inr (BookFailed sql_syntax_error), db)"
  using assms book_ticket_table[of fb db s e n] tool_table[of fc fb db s e n]
    book_ticket_nonpos[of n db s e]
  by auto

theorem nonpositive_count_changes_nothing_witness:
  "(0::int) \<le> 0 \<and>
   snd (book_ticket_tool no_check_faults no_book_faults example_table ''A'' ''B'' 0) = example_table \<and>
   fst (book_ticket no_book_faults example_table ''A'' ''B'' 0) = Inr (BookFailed sql_syntax_error)"
proof -
  have h: "(0::int) \<le> 0" by simp
  from nonpositive_count_changes_nothing[OF h, of no_check_faults no_book_faults example_table "''A''" "''B''"]
  show ?thesis by simp
qed

section \<open>What the tool makes of the result of book_ticket\<close>

text \<open>
  C6 as first stated (success whatever \<open>book_ticket\<close> does) does not hold. When
  \<open>book_ticket\<close> raises instead of returning, the tool does not report success:
  on the example table the availability query returns \<open>2\<close> and the count is \<open>1\<close>; if
  the connection of \<open>book_ticket\<close> cannot be opened, or if its \<open>SELECT\<close> raises and then
  \<open>rollback\<close> raises too, the tool returns status fail.
\<close>

theorem raising_book_ticket_reported_as_fail:
  "fst (check_ticket no_check_faults example_table ''A'' ''B'') = Inr 2 \<and>
   fst (book_ticket_tool no_check_faults (no_book_faults\<lparr>bf_connect := Some ''Connection refused''\<rparr>)
          example_table ''A'' ''B'' 1)
     = \<lparr>status = Fail, message = ExnText ''Connection refused'', booked = 0\<rparr> \<and>
   fst (book_ticket_tool no_check_faults
          (no_book_faults\<lparr>bf_select := Some ''Lost connection'', bf_rollback := Some ''Already closed''\<rparr>)
          example_table ''A'' ''B'' 1)
     = \<lparr>status = Fail, message = ExnText ''Already closed'', booked = 0\<rparr>"
  by code_simp

text \<open>
  C6, as amended. When the availability query of \<open>book_ticket_tool\<close> returns a number
  not below \<open>num_seats\<close>, the tool goes on to \<open>book_ticket\<close>. If \<open>book_ticket\<close> returns,
  whatever string it returns, the tool reports status success with
  \<open>booked = num_seats\<close>; if it raises, the tool reports status fail with \<open>booked = 0\<close>
  and the text of the exception. The table is left as \<open>book_ticket\<close> left it.
\<close>

theorem tool_ignores_returned_string:
  assumes "fst (check_ticket fc db s e) = Inr c" and "n \<le> c"
  shows "(\<forall>msg. fst (book_ticket fb db s e n) = Inr msg \<longrightarrow>
            fst (book_ticket_tool fc fb db s e n)
              = \<lparr>status = Success, message = BookedSeats n, booked = n\<rparr>) \<and>
         (\<forall>m. fst (book_ticket fb db s e n) = Inl m \<longrightarrow>
            fst (book_ticket_tool fc fb db s e n)
              = \<lparr>status = Fail, message = ExnText m, booked = 0\<rparr>) \<and>
         snd (book_ticket_tool fc fb db s e n) = snd (book_ticket fb db s e n)"
proof -
  have c: "check_ticket fc db s e = (Inr c, db)"
    using assms(1) check_ticket_snd[of fc db s e] by (simp add: prod_eq_iff)
  show ?thesis using assms(2)
    by (auto simp: book_ticket_tool_def c split: prod.splits sum.splits)
qed

theorem tool_ignores_returned_string_witness:
  "fst (check_ticket no_check_faults example_table ''A'' ''B'') = Inr 2 \<and> (1::int) \<le> 2 \<and>
   fst (book_ticket (no_book_faults\<lparr>bf_update := Some ''Lock wait timeout exceeded''\<rparr>)
          example_table ''A'' ''B'' 1) = Inr (BookFailed ''Lock wait timeout exceeded'') \<and>
   fst (book_ticket_tool no_check_faults (no_book_faults\<lparr>bf_update := Some ''Lock wait timeout exceeded''\<rparr>)
          example_table ''A'' ''B'' 1)
     = \<lparr>status = Success, message = BookedSeats 1, booked = 1\<rparr>"
proof -
  have h1: "fst (check_ticket no_check_faults example_table ''A'' ''B'') = Inr 2" by code_simp
  have h2: "(1::int) \<le> 2" by simp
  have h3: "fst (book_ticket (no_book_faults\<lparr>bf_update := Some ''Lock wait timeout exceeded''\<rparr>)
          example_table ''A'' ''B'' 1) = Inr (BookFailed ''Lock wait timeout exceeded'')" by code_simp
  from tool_ignores_returned_string[OF h1 h2,
      of "no_book_faults\<lparr>bf_update := Some ''Lock wait timeout exceeded''\<rparr>"] h1 h2 h3
  show ?thesis by simp
qed

section \<open>Seats over a sequence of calls\<close>

text \<open>
  C7. On a table with unique ids, after any list of calls of \<open>check_ticket\<close>,
  \<open>book_ticket\<close> and the two tools, with any arguments and whatever the store raises,
  the table has the same seats in the same places (no row added, deleted or given
  another id or route), and the status of each seat is what it was or has gone from
  \<open>0\<close> to \<open>1\<close>; a seat that was booked is still booked.
\<close>

theorem seats_only_become_booked:
  assumes "wf_table db"
  shows "length (run db calls) = length db \<and>
         (\<forall>i<length db.
            seat_id (run db calls ! i) = seat_id (db ! i) \<and>
            start_station (run db calls ! i) = start_station (db ! i) \<and>
            end_station (run db calls ! i) = end_station (db ! i) \<and>
            (seat_status (run db calls ! i) = seat_status (db ! i) \<or>
             (seat_status (db ! i) = 0 \<and> seat_status (run db calls ! i) = 1)) \<and>
            (seat_status (db ! i) = 1 \<longrightarrow> seat_status (run db calls ! i) = 1))"
  using run_moves[OF assms, of calls]
  by (auto simp: list_all2_conv_all_nth seat_moves_def)

theorem seats_only_become_booked_witness:
  "wf_table example_table \<and>
   seat_status (example_table ! 1) = 1 \<and>
   seat_status (run example_table example_calls ! 1) = 1 \<and>
   seat_id (run example_table example_calls ! 1) = seat_id (example_table ! 1) \<and>
   length (run example_table example_calls) = 4"
proof -
  have h: "wf_table example_table" by code_simp
  have l: "length example_table = 4" by code_simp
  have b: "seat_status (example_table ! 1) = 1" by code_simp
  from seats_only_become_booked[OF h, of example_calls]
  have f: "length (run example_table example_calls) = length example_table"
    "\<forall>i<length example_table.
       seat_id (run example_table example_calls ! i) = seat_id (example_table ! i) \<and>
       (seat_status (example_table ! i) = 1 \<longrightarrow> seat_status (run example_table example_calls ! i) = 1)"
    by blast+
  show ?thesis using h l b f(1) f(2)[rule_format, of 1] by simp
qed

section \<open>The availability query\<close>

text \<open>
  C8. \<open>check_ticket\<close> never changes the table. Whatever it returns is the number of
  rows with status \<open>0\<close> whose two stations equal the arguments, a non-negative
  integer; with a store that raises nothing it does return, and it returns \<open>0\<close> when
  no row matches.
\<close>

theorem check_ticket_counts:
  "snd (check_ticket f db s e) = db \<and>
   (\<forall>c. fst (check_ticket f db s e) = Inr c \<longrightarrow>
        0 \<le> c \<and>
        c = int (card {i. i < length db \<and> seat_status (db ! i) = 0 \<and>
                          start_station (db ! i) = s \<and> end_station (db ! i) = e})) \<and>
   (\<exists>c. fst (check_ticket no_check_faults db s e) = Inr c) \<and>
   ((\<forall>r\<in>set db. \<not> (seat_status r = 0 \<and> start_station r = s \<and> end_station r = e)) \<longrightarrow>
      fst (check_ticket no_check_faults db s e) = Inr 0)"
proof -
  have cnt: "available_count db s e =
     int (card {i. i < length db \<and> seat_status (db ! i) = 0 \<and>
                   start_station (db ! i) = s \<and> end_station (db ! i) = e})"
    by (simp add: available_count_def length_filter_conv_card available_on_def station_eq_def)
  have zero: "(\<forall>r\<in>set db. \<not> (seat_status r = 0 \<and> start_station r = s \<and> end_station r = e)) \<Longrightarrow>
      available_count db s e = 0"
    by (auto simp: available_count_def available_on_def station_eq_def filter_empty_conv)
  show ?thesis
    using check_ticket_snd[of f db s e] check_ticket_fst[of f db s e] cnt zero
    by (auto simp: check_ticket_no_faults)
qed

theorem check_ticket_counts_witness:
  "fst (check_ticket no_check_faults example_table ''B'' ''A'') = Inr 0 \<and>
   snd (check_ticket no_check_faults example_table ''B'' ''A'') = example_table"
proof -
  have h: "\<forall>r\<in>set example_table. \<not> (seat_status r = 0 \<and> start_station r = ''B'' \<and> end_station r = ''A'')"
    by (simp add: example_table_def)
  from check_ticket_counts[of no_check_faults example_table "''B''" "''A''"] h
  show ?thesis by blast
qed

section \<open>The same booking made twice\<close>

text \<open>
  C9. On a table with unique ids and a store that raises nothing, when a route has
  at least \<open>2 * n\<close> available seats and \<open>1 \<le> n\<close>, two calls of \<open>book_ticket_tool\<close> with
  the same arguments, one after the other, both return status success with
  \<open>booked = n\<close>; the route has \<open>A - n\<close> available seats after the first and
  \<open>A - 2 * n\<close> after the second, so the second call changes the table again.
\<close>

theorem book_twice:
  assumes "wf_table db" and "1 \<le> n" and "2 * n \<le> available_count db s e"
    and "book_ticket_tool no_check_faults no_book_faults db s e n = (res1, db1)"
    and "book_ticket_tool no_check_faults no_book_faults db1 s e n = (res2, db2)"
  shows "status res1 = Success \<and> booked res1 = n \<and>
         status res2 = Success \<and> booked res2 = n \<and>
         available_count db1 s e = available_count db s e - n \<and>
         available_count db2 s e = available_count db s e - 2 * n \<and>
         db2 \<noteq> db1"
proof -
  let ?A = "available_count db s e"
  have n1: "n \<le> ?A" using assms(2,3) by simp
  have r1: "res1 = \<lparr>status = Success, message = BookedSeats n, booked = n\<rparr>"
    and d1: "db1 = mark_booked (map seat_id (selected db s e n)) db"
    using tool_no_faults[OF assms(2) n1] assms(4) by simp_all
  have a1: "available_count db1 s e = ?A - n"
    unfolding d1 using assms(2) n1 by (intro available_count_after[OF assms(1)]) simp_all
  have w1: "wf_table db1" unfolding d1 by (rule wf_mark_booked[OF assms(1)])
  have n2: "n \<le> available_count db1 s e" using a1 assms(3) by simp
  have r2: "res2 = \<lparr>status = Success, message = BookedSeats n, booked = n\<rparr>"
    and d2: "db2 = mark_booked (map seat_id (selected db1 s e n)) db1"
    using tool_no_faults[OF assms(2) n2] assms(5) by simp_all
  have a2: "available_count db2 s e = available_count db1 s e - n"
    unfolding d2 using assms(2) n2 by (intro available_count_after[OF w1]) simp_all
  have "db2 \<noteq> db1" using a2 assms(2) by auto
  then show ?thesis using r1 r2 a1 a2 by simp
qed

theorem book_twice_witness:
  "wf_table example_table \<and> (1::int) \<le> 1 \<and> 2 * 1 \<le> available_count example_table ''A'' ''B'' \<and>
   status (fst (book_ticket_tool no_check_faults no_book_faults
     (snd (book_ticket_tool no_check_faults no_book_faults example_table ''A'' ''B'' 1)) ''A'' ''B'' 1)) = Success \<and>
   available_count (snd (book_ticket_tool no_check_faults no_book_faults
     (snd (book_ticket_tool no_check_faults no_book_faults example_table ''A'' ''B'' 1)) ''A'' ''B'' 1)) ''A'' ''B'' = 0"
proof -
  have h1: "wf_table example_table" by code_simp
  have h2: "(1::int) \<le> 1" by simp
  have h3: "2 * 1 \<le> available_count example_table ''A'' ''B''" by code_simp
  have a: "available_count example_table ''A'' ''B'' - 2 * 1 = 0" by code_simp
  from book_twice[OF h1 h2 h3 prod.collapse[symmetric] prod.collapse[symmetric]] h1 h2 h3 a
  show ?thesis by simp
qed

section \<open>What a booking may change\<close>

text \<open>
  C10. On a table with unique ids, after a call of \<open>book_ticket\<close> or of
  \<open>book_ticket_tool\<close>, whatever the store raises and whatever is returned, the table
  has the same rows in the same places, except that available seats of the requested
  route may have become booked; a row that was not an available seat of that route
  is unchanged, and at most \<open>num_seats\<close> rows have changed.
\<close>

theorem booking_frame:
  assumes "wf_table db"
    and "db' = snd (book_ticket fb db s e n) \<or> db' = snd (book_ticket_tool fc fb db s e n)"
  shows "length db' = length db \<and>
         (\<forall>i<length db. db' ! i = db ! i \<or>
             (available_on s e (db ! i) \<and> db' ! i = (db ! i)\<lparr>seat_status := 1\<rparr>)) \<and>
         (\<forall>i<length db. \<not> available_on s e (db ! i) \<longrightarrow> db' ! i = db ! i) \<and>
         length (changed_rows db db') \<le> nat n"
proof -
  have "list_all2 (framed s e) db db' \<and> length (changed_rows db db') \<le> nat n"
    using assms(2) book_ticket_framed[OF assms(1), of s e fb n] tool_framed[OF assms(1), of s e fc fb n]
    by blast
  then show ?thesis
    by (auto simp: list_all2_conv_all_nth framed_def)
qed

theorem booking_frame_witness:
  "wf_table example_table \<and>
   length (snd (book_ticket_tool no_check_faults no_book_faults example_table ''A'' ''B'' 1)) = 4 \<and>
   snd (book_ticket_tool no_check_faults no_book_faults example_table ''A'' ''B'' 1) ! 0 =
     (example_table ! 0)\<lparr>seat_status := 1\<rparr> \<and>
   snd (book_ticket_tool no_check_faults no_book_faults example_table ''A'' ''B'' 1) ! 1 = example_table ! 1 \<and>
   snd (book_ticket_tool no_check_faults no_book_faults example_table ''A'' ''B'' 1) ! 2 = example_table ! 2 \<and>
   length (changed_rows example_table
     (snd (book_ticket_tool no_check_faults no_book_faults example_table ''A'' ''B'' 1))) \<le> nat 1"
proof -
  let ?db' = "snd (book_ticket_tool no_check_faults no_book_faults example_table ''A'' ''B'' 1)"
  have h: "wf_table example_table" by code_simp
  have l: "length example_table = 4" by code_simp
  have n1: "\<not> available_on ''A'' ''B'' (example_table ! 1)" by code_simp
  have n2: "\<not> available_on ''A'' ''B'' (example_table ! 2)" by code_simp
  have c0: "?db' ! 0 \<noteq> example_table ! 0" by code_simp
  from booking_frame[OF h disjI2[OF refl], of no_check_faults no_book_faults "''A''" "''B''" 1]
  have f: "length ?db' = length example_table"
    "\<forall>i<length example_table. ?db' ! i = example_table ! i \<or>
       (available_on ''A'' ''B'' (example_table ! i) \<and> ?db' ! i = (example_table ! i)\<lparr>seat_status := 1\<rparr>)"
    "\<forall>i<length example_table. \<not> available_on ''A'' ''B'' (example_table ! i) \<longrightarrow> ?db' ! i = example_table ! i"
    "length (changed_rows example_table ?db') \<le> nat 1"
    by blast+
  have "?db' ! 0 = (example_table ! 0)\<lparr>seat_status := 1\<rparr>" using f(2)[rule_format, of 0] c0 l by simp
  moreover have "?db' ! 1 = example_table ! 1" using f(3)[rule_format, of 1] n1 l by simp
  moreover have "?db' ! 2 = example_table ! 2" using f(3)[rule_format, of 2] n2 l by simp
  ultimately show ?thesis using h f(1) f(4) l by simp
qed

end
